theory Spec2Isabelle
  imports Complex_Main "HOL-Library.AList" "HOL-Library.Signed_Division"
begin

section \<open>Data model\<close>

subsection \<open>JSON values\<close>

text \<open>
  The payload of a resource, the transport parameters and the transport file are
  \<^verbatim>\<open>web::json::value\<close>s. An object is kept as an association list; a field is
  looked up with \<^const>\<open>map_of\<close> (first binding) and written with \<^const>\<open>AList.update\<close>
  (in place, or appended when the key is new).
\<close>

datatype json =
    JNull
  | JBoolean bool
  | JNumber int
  | JString string
  | JArray "json list"
  | JObject "(string \<times> json) list"

text \<open>Exceptions the code can raise: \<^verbatim>\<open>web::json::json_exception\<close> and \<^verbatim>\<open>std::logic_error\<close>.\<close>

datatype error = json_exception string | logic_error string

definition bind_err :: "error + 'a \<Rightarrow> ('a \<Rightarrow> error + 'b) \<Rightarrow> error + 'b" where
  "bind_err r f = (case r of Inl e \<Rightarrow> Inl e | Inr x \<Rightarrow> f x)"

text \<open>\<^verbatim>\<open>value::at(key)\<close>, which the field accessors \<^verbatim>\<open>nmos::fields::f(value)\<close> use on a
  const value: it throws when the value is not an object or lacks the key.\<close>

fun json_at :: "json \<Rightarrow> string \<Rightarrow> error + json" where
  "json_at (JObject fs) key =
     (case map_of fs key of
        None \<Rightarrow> Inl (json_exception ''Key not found'')
      | Some v \<Rightarrow> Inr v)"
| "json_at _ key = Inl (json_exception ''not an object'')"

text \<open>
  \<^verbatim>\<open>value::operator[](size_t index)\<close> on a non-const value, as in
  \<^verbatim>\<open>transport_params[0]\<close>: a null value becomes an empty array first, an array shorter
  than \<open>index + 1\<close> is extended with nulls, and any other value throws. The function
  returns the elements of the array after the access.
\<close>

fun index_array :: "json \<Rightarrow> nat \<Rightarrow> error + json list" where
  "index_array JNull i = Inr (replicate (Suc i) JNull)"
| "index_array (JArray xs) i = Inr (xs @ replicate (Suc i - length xs) JNull)"
| "index_array _ i = Inl (json_exception ''not an array'')"

text \<open>A function applied in place to the element \<^verbatim>\<open>v[i]\<close>, passed by reference.\<close>

definition modify_index :: "json \<Rightarrow> nat \<Rightarrow> (json \<Rightarrow> json) \<Rightarrow> error + json" where
  "modify_index v i f =
     bind_err (index_array v i) (\<lambda>xs. Inr (JArray (xs[i := f (xs ! i)])))"

text \<open>
  \<^verbatim>\<open>value::operator[](key)\<close> on a non-const value, as in
  \<^verbatim>\<open>data[nmos::fields::endpoint_transportfile]\<close>: a null value becomes an empty object
  first, a missing key is added with a null value, and a value that is no object throws.
  \<open>modify_field v key f\<close> applies the fallible in-place operation \<open>f\<close> to that element.
\<close>

fun modify_field :: "json \<Rightarrow> string \<Rightarrow> (json \<Rightarrow> error + json) \<Rightarrow> error + json" where
  "modify_field JNull key f =
     bind_err (f JNull) (\<lambda>v. Inr (JObject [(key, v)]))"
| "modify_field (JObject fs) key f =
     bind_err (f (case map_of fs key of None \<Rightarrow> JNull | Some v \<Rightarrow> v))
       (\<lambda>v. Inr (JObject (AList.update key v fs)))"
| "modify_field _ key f = Inl (json_exception ''not an object'')"

subsection \<open>Resources and settings\<close>

datatype nmos_type = Node | Device | Source | Flow | Sender | Receiver

text \<open>\<^verbatim>\<open>nmos::resource\<close>: the fields \<^verbatim>\<open>id\<close>, \<^verbatim>\<open>type\<close> and \<^verbatim>\<open>data\<close> that the node implementation reads.\<close>

record resource =
  resource_id :: string
  resource_type :: nmos_type
  resource_data :: json

text \<open>\<^verbatim>\<open>nmos::settings\<close>: the two settings the node implementation reads.\<close>

record settings =
  seed_id :: string
  events_port :: int

text \<open>Names of the JSON fields (\<^verbatim>\<open>nmos::fields::...\<close>) the code uses.\<close>

definition source_ip :: string where "source_ip = ''source_ip''"
definition destination_ip :: string where "destination_ip = ''destination_ip''"
definition interface_ip :: string where "interface_ip = ''interface_ip''"
definition connection_uri :: string where "connection_uri = ''connection_uri''"
definition connection_authorization :: string where
  "connection_authorization = ''connection_authorization''"
definition endpoint_active :: string where "endpoint_active = ''active''"
definition endpoint_transportfile :: string where "endpoint_transportfile = ''transportfile''"
definition transport_params :: string where "transport_params = ''transport_params''"

subsection \<open>The library functions the callbacks call\<close>

text \<open>
  The callbacks of \<^verbatim>\<open>node_implementation.cpp\<close> call functions of the nmos library whose
  code is elsewhere.
  They are parameters of the model: a record of functions, each with the signature its
  call shows, fallible ones returning an exception as \<open>Inl\<close>. The type \<open>'sdp\<close> stands
  for \<^verbatim>\<open>nmos::sdp_parameters\<close>.
\<close>

record 'sdp nmos_lib =
  make_repeatable_id :: "string \<Rightarrow> string \<Rightarrow> string"
  make_events_ws_api_connection_uri :: "string \<Rightarrow> settings \<Rightarrow> string"
  resolve_rtp_auto :: "nmos_type \<Rightarrow> json \<Rightarrow> error + json"
  make_sdp_parameters :: "json \<Rightarrow> json \<Rightarrow> json \<Rightarrow> string list \<Rightarrow> error + 'sdp"
  make_session_description :: "'sdp \<Rightarrow> json \<Rightarrow> error + json"
  sdp_make_session_description :: "json \<Rightarrow> error + string"
  make_connection_rtp_sender_transportfile :: "string \<Rightarrow> json"

text \<open>The repeatable identifiers, each made from the seed and a fixed path.\<close>

definition node_id :: "'sdp nmos_lib \<Rightarrow> settings \<Rightarrow> string" where
  "node_id lib st = make_repeatable_id lib (seed_id st) ''/x-nmos/node/self''"
definition device_id :: "'sdp nmos_lib \<Rightarrow> settings \<Rightarrow> string" where
  "device_id lib st = make_repeatable_id lib (seed_id st) ''/x-nmos/node/device/0''"
definition source_id :: "'sdp nmos_lib \<Rightarrow> settings \<Rightarrow> string" where
  "source_id lib st = make_repeatable_id lib (seed_id st) ''/x-nmos/node/source/0''"
definition flow_id :: "'sdp nmos_lib \<Rightarrow> settings \<Rightarrow> string" where
  "flow_id lib st = make_repeatable_id lib (seed_id st) ''/x-nmos/node/flow/0''"
definition sender_id :: "'sdp nmos_lib \<Rightarrow> settings \<Rightarrow> string" where
  "sender_id lib st = make_repeatable_id lib (seed_id st) ''/x-nmos/node/sender/0''"
definition receiver_id :: "'sdp nmos_lib \<Rightarrow> settings \<Rightarrow> string" where
  "receiver_id lib st = make_repeatable_id lib (seed_id st) ''/x-nmos/node/receiver/0''"
definition temperature_source_id :: "'sdp nmos_lib \<Rightarrow> settings \<Rightarrow> string" where
  "temperature_source_id lib st = make_repeatable_id lib (seed_id st) ''/x-nmos/node/source/1''"
definition temperature_flow_id :: "'sdp nmos_lib \<Rightarrow> settings \<Rightarrow> string" where
  "temperature_flow_id lib st = make_repeatable_id lib (seed_id st) ''/x-nmos/node/flow/1''"
definition temperature_ws_sender_id :: "'sdp nmos_lib \<Rightarrow> settings \<Rightarrow> string" where
  "temperature_ws_sender_id lib st =
     make_repeatable_id lib (seed_id st) ''/x-nmos/node/sender/1''"
definition temperature_ws_receiver_id :: "'sdp nmos_lib \<Rightarrow> settings \<Rightarrow> string" where
  "temperature_ws_receiver_id lib st =
     make_repeatable_id lib (seed_id st) ''/x-nmos/node/receiver/1''"

section \<open>The auto-resolver\<close>

text \<open>
  Modelled from the spec: \<^verbatim>\<open>nmos::details::resolve_auto(params, key, auto_fun)\<close>, whose
  code is not in the sources. The spec: the resolver ``fills in any parameter marked auto
  with a concrete value'' and ``resolving an already-concrete parameter is a no-op''. So
  the parameter \<open>key\<close> of the leg \<open>params\<close> is replaced by the supplied value when it
  holds the string \<open>auto\<close>, and the leg is left as it is otherwise (also when it has no
  such parameter, or is no object).
\<close>

definition auto_marker :: json where
  "auto_marker = JString ''auto''"

definition resolve_auto :: "json \<Rightarrow> string \<Rightarrow> json \<Rightarrow> json" where
  "resolve_auto params key v =
     (case params of
        JObject fs \<Rightarrow>
          (if map_of fs key = Some auto_marker then JObject (AList.update key v fs) else params)
      | _ \<Rightarrow> params)"

text \<open>
  The callback made by \<^verbatim>\<open>make_node_implementation_auto_resolver\<close>. It returns the
  transport parameters it was given by reference, or the exception that left it.
\<close>

definition auto_resolver ::
  "'sdp nmos_lib \<Rightarrow> settings \<Rightarrow> resource \<Rightarrow> resource \<Rightarrow> json \<Rightarrow> error + json" where
  "auto_resolver lib st resource connection_resource tp =
     (let id_type = (resource_id connection_resource, resource_type connection_resource);
          temperature_ws_sender_uri =
            make_events_ws_api_connection_uri lib (device_id lib st) st
      in
      if sender_id lib st = fst id_type then
        bind_err (resolve_rtp_auto lib (snd id_type) tp) (\<lambda>tp.
        bind_err (modify_index tp 0
          (\<lambda>p. resolve_auto p source_ip (JString ''192.168.255.0''))) (\<lambda>tp.
        bind_err (modify_index tp 1
          (\<lambda>p. resolve_auto p source_ip (JString ''192.168.255.1''))) (\<lambda>tp.
        bind_err (modify_index tp 0
          (\<lambda>p. resolve_auto p destination_ip (JString ''239.255.255.0''))) (\<lambda>tp.
        modify_index tp 1
          (\<lambda>p. resolve_auto p destination_ip (JString ''239.255.255.1''))))))
      else if receiver_id lib st = fst id_type then
        bind_err (resolve_rtp_auto lib (snd id_type) tp) (\<lambda>tp.
        bind_err (modify_index tp 0
          (\<lambda>p. resolve_auto p interface_ip (JString ''192.168.255.2''))) (\<lambda>tp.
        modify_index tp 1
          (\<lambda>p. resolve_auto p interface_ip (JString ''192.168.255.3''))))
      else if temperature_ws_sender_id lib st = fst id_type then
        bind_err (modify_index tp 0
          (\<lambda>p. resolve_auto p connection_uri (JString temperature_ws_sender_uri))) (\<lambda>tp.
        modify_index tp 0
          (\<lambda>p. resolve_auto p connection_authorization (JBoolean False)))
      else if temperature_ws_receiver_id lib st = fst id_type then
        modify_index tp 0
          (\<lambda>p. resolve_auto p connection_authorization (JBoolean False))
      else Inr tp)"

text \<open>The identities the resolver has a branch for.\<close>

definition recognized :: "'sdp nmos_lib \<Rightarrow> settings \<Rightarrow> string \<Rightarrow> bool" where
  "recognized lib st i \<longleftrightarrow>
     i = sender_id lib st \<or> i = receiver_id lib st \<or>
     i = temperature_ws_sender_id lib st \<or> i = temperature_ws_receiver_id lib st"

text \<open>
  A parameter of a leg holds the sentinel when looking it up gives the string \<open>auto\<close>;
  a transport parameter set has an unresolved parameter when one of its legs has one.
\<close>

definition leg_has_auto :: "json \<Rightarrow> bool" where
  "leg_has_auto leg =
     (case leg of
        JObject fs \<Rightarrow> list_ex (\<lambda>k. map_of fs k = Some auto_marker) (map fst fs)
      | _ \<Rightarrow> False)"

definition has_auto :: "json \<Rightarrow> bool" where
  "has_auto tp = (case tp of JArray legs \<Rightarrow> list_ex leg_has_auto legs | _ \<Rightarrow> False)"

section \<open>The resource store\<close>

text \<open>
  \<^verbatim>\<open>nmos::resources\<close> and its operations are library code. One namespace is kept as the
  list of its resources in insertion order.
\<close>

type_synonym resources = "resource list"

text \<open>
  Modelled from the spec: \<^verbatim>\<open>nmos::find_resource(resources, {id, type})\<close>, whose code is
  not in the sources. The spec: ``find(namespace, id, type): lookup by id; fails (returns
  empty) if absent''.
\<close>

definition find_resource :: "resources \<Rightarrow> string \<times> nmos_type \<Rightarrow> resource option" where
  "find_resource rs id_type =
     List.find (\<lambda>r. resource_id r = fst id_type \<and> resource_type r = snd id_type) rs"

text \<open>
  Modelled from the spec: \<^verbatim>\<open>insert_resource(resources, resource)\<close>, whose code is not in
  the sources; the boolean is the \<^verbatim>\<open>.second\<close> of its result. The spec: insert ``fails
  (returns false, does not mutate) if (id, type) already exists in that namespace. On
  success, the resource becomes visible to all subsequent lookups''.
\<close>

definition insert_resource :: "resources \<Rightarrow> resource \<Rightarrow> resources \<times> bool" where
  "insert_resource rs r =
     (if find_resource rs (resource_id r, resource_type r) \<noteq> None then (rs, False)
      else (rs @ [r], True))"

section \<open>The transport file setter\<close>

text \<open>
  The body of the guarded block of the callback made by
  \<^verbatim>\<open>make_node_implementation_transportfile_setter\<close>: the value assigned to
  \<^verbatim>\<open>endpoint_transportfile\<close>, or the exception thrown. \<^verbatim>\<open>utility::s2us\<close> only converts
  between string types and is the identity here.
\<close>

text \<open>\<^verbatim>\<open>nmos::fields::transport_params(nmos::fields::endpoint_active(c.data))\<close> on a const
  resource.\<close>

definition active_transport_params :: "resource \<Rightarrow> error + json" where
  "active_transport_params c =
     bind_err (json_at (resource_data c) endpoint_active)
       (\<lambda>active. json_at active transport_params)"

definition build_transportfile ::
  "'sdp nmos_lib \<Rightarrow> settings \<Rightarrow> resources \<Rightarrow> resource \<Rightarrow> resource \<Rightarrow> error + json" where
  "build_transportfile lib st node_resources sender connection_sender =
     (let source = find_resource node_resources (source_id lib st, Source);
          flow = find_resource node_resources (flow_id lib st, Flow)
      in
      case (source, flow) of
        (Some src, Some flw) \<Rightarrow>
          bind_err (make_sdp_parameters lib (resource_data src) (resource_data flw)
                      (resource_data sender) [''PRIMARY'', ''SECONDARY'']) (\<lambda>sdp_params.
          bind_err (active_transport_params connection_sender) (\<lambda>tp.
          bind_err (make_session_description lib sdp_params tp) (\<lambda>session_description.
          bind_err (sdp_make_session_description lib session_description) (\<lambda>sdp.
          Inr (make_connection_rtp_sender_transportfile lib sdp)))))
      | _ \<Rightarrow> Inl (logic_error ''matching IS-04 source or flow not found''))"

text \<open>
  The callback itself. It holds the node resources by const reference and is given the
  output parameter by reference; the model passes both in and returns both, with the
  exception, if any, that left the callback.
\<close>

definition transportfile_setter ::
  "'sdp nmos_lib \<Rightarrow> settings \<Rightarrow> resource \<Rightarrow> resource \<Rightarrow> resources \<times> json \<Rightarrow>
     (error + unit) \<times> (resources \<times> json)" where
  "transportfile_setter lib st sender connection_sender s =
     (case s of (node_resources, endpoint_transportfile_out) \<Rightarrow>
        if sender_id lib st = resource_id connection_sender then
          (case build_transportfile lib st node_resources sender connection_sender of
             Inl e \<Rightarrow> (Inl e, (node_resources, endpoint_transportfile_out))
           | Inr v \<Rightarrow> (Inr (), (node_resources, v)))
        else (Inr (), (node_resources, endpoint_transportfile_out)))"

section \<open>The temperature events\<close>

text \<open>
  \<^verbatim>\<open>nmos::events_number\<close>: a value and a scale. The value is a C++ double; every value
  computed here is an integer below \<open>2^53\<close>, which a double holds exactly, so it is kept
  as a real number.
\<close>

record events_number =
  number_value :: real
  number_scale :: int

definition scaled_value :: "events_number \<Rightarrow> real" where
  "scaled_value n = number_value n / real_of_int (number_scale n)"

text \<open>
  The value made in the periodic task from \<^verbatim>\<open>nmos::tai_now().seconds\<close>, a signed 64-bit
  count of seconds. The C++ remainder \<^verbatim>\<open>%\<close> truncates towards zero: it is \<open>smod\<close>.
\<close>

definition temperature_value :: "int \<Rightarrow> events_number" where
  "temperature_value seconds =
     \<lparr>number_value = 175.0 + real_of_int \<bar>seconds smod 100 - 50\<bar>, number_scale = 10\<rparr>"

section \<open>The node implementation thread\<close>

subsection \<open>The model and the insert helper\<close>

text \<open>
  \<^verbatim>\<open>nmos::node_model\<close>: the three namespaces, the shutdown flag, and a count of the calls
  of \<^verbatim>\<open>model.notify()\<close>, which signals the change condition. The field \<open>waits\<close> is
  not a field of the C++ model: it counts the timed waits the thread has made, so that
  the environment can be asked what happened during each one.
\<close>

record node_model =
  node_resources :: resources
  connection_resources :: resources
  events_resources :: resources
  shutdown :: bool
  notifications :: nat
  waits :: nat

text \<open>Which \<^verbatim>\<open>nmos::resources&\<close> of the model a call is given.\<close>

datatype namespace = NodeResources | ConnectionResources | EventsResources

fun get_resources :: "node_model \<Rightarrow> namespace \<Rightarrow> resources" where
  "get_resources m NodeResources = node_resources m"
| "get_resources m ConnectionResources = connection_resources m"
| "get_resources m EventsResources = events_resources m"

fun set_resources :: "namespace \<Rightarrow> resources \<Rightarrow> node_model \<Rightarrow> node_model" where
  "set_resources NodeResources rs m = m\<lparr>node_resources := rs\<rparr>"
| "set_resources ConnectionResources rs m = m\<lparr>connection_resources := rs\<rparr>"
| "set_resources EventsResources rs m = m\<lparr>events_resources := rs\<rparr>"

definition stores :: "node_model \<Rightarrow> resources \<times> resources \<times> resources" where
  "stores m = (node_resources m, connection_resources m, events_resources m)"

text \<open>
  Modelled from the spec: \<^verbatim>\<open>nmos::details::wait_for(model.shutdown_condition, lock,
  milliseconds, [&] { return model.shutdown; })\<close>, whose code is not in the sources. The
  spec: the setup sequence ``may wait (bounded by a timeout or by shutdown) between
  successive insertions; this wait releases the lock while blocked'', the waits ``must
  wake on shutdown'', and the shutdown flag ``once set, is never cleared''. The wait
  returns the value of the predicate at its end: the flag was set already, or another
  thread raised it during this wait, which \<open>raised\<close> tells for the wait's number.
\<close>

definition wait_for :: "(nat \<Rightarrow> bool) \<Rightarrow> node_model \<Rightarrow> bool \<times> node_model" where
  "wait_for raised m =
     (let flag = shutdown m \<or> raised (waits m)
      in (flag, m\<lparr>shutdown := flag, waits := Suc (waits m)\<rparr>))"

definition notify :: "node_model \<Rightarrow> node_model" where
  "notify m = m\<lparr>notifications := Suc (notifications m)\<rparr>"

text \<open>
  The lambda \<^verbatim>\<open>insert_resource_after\<close>. Its log lines are written to the logger it is
  given, which is not part of the model, and are left out.
\<close>

definition insert_resource_after ::
  "(nat \<Rightarrow> bool) \<Rightarrow> namespace \<Rightarrow> resource \<Rightarrow> node_model \<Rightarrow> bool \<times> node_model" where
  "insert_resource_after raised ns resource m =
     (case wait_for raised m of (flag, m1) \<Rightarrow>
        if flag then (False, m1)
        else (case insert_resource (get_resources m1 ns) resource of (rs, success) \<Rightarrow>
                (success, notify (set_resources ns rs m1))))"

text \<open>
  A run of statements \<^verbatim>\<open>if (!insert_resource_after(delay_millis, resources, r, gate))
  return;\<close>, one for each request in turn. The result is false when the thread returned.
\<close>

type_synonym request = "namespace \<times> resource"

fun insert_resources_after ::
  "(nat \<Rightarrow> bool) \<Rightarrow> request list \<Rightarrow> node_model \<Rightarrow> bool \<times> node_model" where
  "insert_resources_after raised [] m = (True, m)"
| "insert_resources_after raised (req # reqs) m =
     (case insert_resource_after raised (fst req) (snd req) m of
        (False, m') \<Rightarrow> (False, m')
      | (True, m') \<Rightarrow> insert_resources_after raised reqs m')"

text \<open>
  The thread is a sequence of blocks. Each block first makes its resources, which can
  throw and, for the sender, reads the node resources of the model as they are then; it
  then inserts them one after the other. The result of a run is \<open>Inr True\<close> when every
  insert succeeded, \<open>Inr False\<close> when the thread returned early, and \<open>Inl e\<close> when
  an exception left the thread.
\<close>

type_synonym block = "node_model \<Rightarrow> error + request list"

fun run_blocks ::
  "(nat \<Rightarrow> bool) \<Rightarrow> block list \<Rightarrow> node_model \<Rightarrow> (error + bool) \<times> node_model" where
  "run_blocks raised [] m = (Inr True, m)"
| "run_blocks raised (b # bs) m =
     (case b m of
        Inl e \<Rightarrow> (Inl e, m)
      | Inr reqs \<Rightarrow>
          (case insert_resources_after raised reqs m of
             (False, m') \<Rightarrow> (Inr False, m')
           | (True, m') \<Rightarrow> run_blocks raised bs m'))"

subsection \<open>The resources the thread makes\<close>

datatype transport = rtp_mcast | websocket

definition group_hint :: string where "group_hint = ''urn:x-nmos:tag:grouphint/v1.0''"
definition application_json :: string where "application_json = ''application/json''"
definition event_number :: string where "event_number = ''number''"
definition event_wildcard :: string where "event_wildcard = ''*''"

text \<open>
  The library functions that make resources and JSON values, as parameters; each has the
  arguments of its call in the thread. A rational is a pair, an event type its name.
\<close>

record nmos_make =
  make_node :: "string \<Rightarrow> settings \<Rightarrow> resource"
  make_device :: "string \<Rightarrow> string \<Rightarrow> string list \<Rightarrow> string list \<Rightarrow> settings \<Rightarrow> resource"
  make_video_source :: "string \<Rightarrow> string \<Rightarrow> int \<times> int \<Rightarrow> settings \<Rightarrow> resource"
  make_raw_video_flow :: "string \<Rightarrow> string \<Rightarrow> string \<Rightarrow> settings \<Rightarrow> resource"
  make_sender :: "string \<Rightarrow> string \<Rightarrow> string \<Rightarrow> string list \<Rightarrow> settings \<Rightarrow> resource"
  make_sender_transport ::
    "string \<Rightarrow> string \<Rightarrow> transport \<Rightarrow> string \<Rightarrow> string \<Rightarrow> string list \<Rightarrow> settings \<Rightarrow> resource"
  make_connection_rtp_sender :: "string \<Rightarrow> bool \<Rightarrow> resource"
  make_video_receiver ::
    "string \<Rightarrow> string \<Rightarrow> transport \<Rightarrow> string list \<Rightarrow> settings \<Rightarrow> resource"
  make_connection_rtp_receiver :: "string \<Rightarrow> bool \<Rightarrow> resource"
  measurement :: "string \<Rightarrow> string \<Rightarrow> string \<Rightarrow> string"
  make_data_source :: "string \<Rightarrow> string \<Rightarrow> int \<times> int \<Rightarrow> string \<Rightarrow> settings \<Rightarrow> resource"
  make_events_number_type ::
    "events_number \<Rightarrow> events_number \<Rightarrow> events_number \<Rightarrow> string \<Rightarrow> json"
  make_events_number_state :: "string \<Rightarrow> events_number \<Rightarrow> json"
  make_events_source :: "string \<Rightarrow> json \<Rightarrow> json \<Rightarrow> resource"
  make_data_flow :: "string \<Rightarrow> string \<Rightarrow> string \<Rightarrow> string \<Rightarrow> settings \<Rightarrow> resource"
  make_connection_events_websocket_sender ::
    "string \<Rightarrow> string \<Rightarrow> string \<Rightarrow> settings \<Rightarrow> resource"
  make_data_receiver ::
    "string \<Rightarrow> string \<Rightarrow> transport \<Rightarrow> string list \<Rightarrow> string \<Rightarrow> string list \<Rightarrow> settings \<Rightarrow>
       resource"
  make_connection_events_websocket_receiver :: "string \<Rightarrow> settings \<Rightarrow> resource"
  make_group_hint :: "string \<times> string \<Rightarrow> json"
  push_back :: "json \<Rightarrow> json \<Rightarrow> error + json"

text \<open>\<^verbatim>\<open>web::json::push_back(r.data[U("tags")][nmos::fields::group_hint], hint)\<close>.\<close>

definition add_group_hint :: "nmos_make \<Rightarrow> resource \<Rightarrow> json \<Rightarrow> error + resource" where
  "add_group_hint mk r hint =
     bind_err (modify_field (resource_data r) ''tags''
                 (\<lambda>tags. modify_field tags group_hint (\<lambda>hints. push_back mk hints hint)))
       (\<lambda>d. Inr (r\<lparr>resource_data := d\<rparr>))"

text \<open>\<^verbatim>\<open>resolve_auto(r, c, c.data[nmos::fields::endpoint_active][nmos::fields::transport_params])\<close>.\<close>

definition resolve_active ::
  "'sdp nmos_lib \<Rightarrow> settings \<Rightarrow> resource \<Rightarrow> resource \<Rightarrow> error + resource" where
  "resolve_active lib st r c =
     bind_err (modify_field (resource_data c) endpoint_active
                 (\<lambda>active. modify_field active transport_params
                    (\<lambda>tp. auto_resolver lib st r c tp)))
       (\<lambda>d. Inr (c\<lparr>resource_data := d\<rparr>))"

text \<open>\<^verbatim>\<open>set_transportfile(r, c, c.data[nmos::fields::endpoint_transportfile])\<close>.\<close>

definition set_endpoint_transportfile ::
  "'sdp nmos_lib \<Rightarrow> settings \<Rightarrow> resources \<Rightarrow> resource \<Rightarrow> resource \<Rightarrow> error + resource" where
  "set_endpoint_transportfile lib st nr r c =
     bind_err (modify_field (resource_data c) endpoint_transportfile
                 (\<lambda>out. case transportfile_setter lib st r c (nr, out) of
                           (Inl e, s) \<Rightarrow> Inl e
                         | (Inr u, s) \<Rightarrow> Inr (snd s)))
       (\<lambda>d. Inr (c\<lparr>resource_data := d\<rparr>))"

definition node_block :: "'sdp nmos_lib \<Rightarrow> nmos_make \<Rightarrow> settings \<Rightarrow> block" where
  "node_block lib mk st m =
     (let node = make_node mk (node_id lib st) st
      in bind_err (modify_field (resource_data node) ''interfaces''
                     (\<lambda>old. Inr (JArray [JObject
                        [(''chassis_id'', JNull),
                         (''port_id'', JString ''ff-ff-ff-ff-ff-ff''),
                         (''name'', JString ''example'')]])))
           (\<lambda>d. Inr [(NodeResources, node\<lparr>resource_data := d\<rparr>)]))"

definition device_block :: "'sdp nmos_lib \<Rightarrow> nmos_make \<Rightarrow> settings \<Rightarrow> block" where
  "device_block lib mk st m =
     (let senders = (if 0 \<le> events_port st
                     then [sender_id lib st, temperature_ws_sender_id lib st]
                     else [sender_id lib st]);
          receivers = [receiver_id lib st]
      in Inr [(NodeResources,
               make_device mk (device_id lib st) (node_id lib st) senders receivers st)])"

definition source_flow_block :: "'sdp nmos_lib \<Rightarrow> nmos_make \<Rightarrow> settings \<Rightarrow> block" where
  "source_flow_block lib mk st m =
     (let source = make_video_source mk (source_id lib st) (device_id lib st) (25, 1) st;
          flow = make_raw_video_flow mk (flow_id lib st) (source_id lib st) (device_id lib st) st
      in Inr [(NodeResources, source), (NodeResources, flow)])"

definition sender_block :: "'sdp nmos_lib \<Rightarrow> nmos_make \<Rightarrow> settings \<Rightarrow> block" where
  "sender_block lib mk st m =
     bind_err (add_group_hint mk
                 (make_sender mk (sender_id lib st) (flow_id lib st) (device_id lib st)
                    [''example'', ''example''] st)
                 (make_group_hint mk (''example'', ''sender 0''))) (\<lambda>sender.
     bind_err (resolve_active lib st sender
                 (make_connection_rtp_sender mk (sender_id lib st) True)) (\<lambda>connection_sender.
     bind_err (set_endpoint_transportfile lib st (node_resources m) sender connection_sender)
       (\<lambda>connection_sender.
     Inr [(NodeResources, sender), (ConnectionResources, connection_sender)])))"

definition receiver_block :: "'sdp nmos_lib \<Rightarrow> nmos_make \<Rightarrow> settings \<Rightarrow> block" where
  "receiver_block lib mk st m =
     bind_err (add_group_hint mk
                 (make_video_receiver mk (receiver_id lib st) (device_id lib st) rtp_mcast
                    [''example'', ''example''] st)
                 (make_group_hint mk (''example'', ''receiver 0''))) (\<lambda>receiver.
     bind_err (resolve_active lib st receiver
                 (make_connection_rtp_receiver mk (receiver_id lib st) True))
       (\<lambda>connection_receiver.
     Inr [(NodeResources, receiver), (ConnectionResources, connection_receiver)]))"

definition temperature_block :: "'sdp nmos_lib \<Rightarrow> nmos_make \<Rightarrow> settings \<Rightarrow> block" where
  "temperature_block lib mk st m =
     (let temperature_Celsius = measurement mk event_number ''temperature'' ''C'';
          temperature_source =
            make_data_source mk (temperature_source_id lib st) (device_id lib st) (0, 1)
              temperature_Celsius st;
          events_temperature_type =
            make_events_number_type mk
              \<lparr>number_value = - 200, number_scale = 10\<rparr>
              \<lparr>number_value = 1000, number_scale = 10\<rparr>
              \<lparr>number_value = 1, number_scale = 10\<rparr> ''C'';
          events_temperature_state =
            make_events_number_state mk (temperature_source_id lib st)
              \<lparr>number_value = 201, number_scale = 10\<rparr>;
          events_temperature_source =
            make_events_source mk (temperature_source_id lib st) events_temperature_state
              events_temperature_type;
          temperature_flow =
            make_data_flow mk (temperature_flow_id lib st) (temperature_source_id lib st)
              (device_id lib st) application_json st;
          temperature_ws_sender =
            make_sender_transport mk (temperature_ws_sender_id lib st)
              (temperature_flow_id lib st) websocket (device_id lib st) [] [''example''] st
      in
      bind_err (resolve_active lib st temperature_ws_sender
                  (make_connection_events_websocket_sender mk (temperature_ws_sender_id lib st)
                     (device_id lib st) (temperature_source_id lib st) st))
        (\<lambda>connection_temperature_ws_sender.
      Inr [(NodeResources, temperature_source),
           (NodeResources, temperature_flow),
           (NodeResources, temperature_ws_sender),
           (ConnectionResources, connection_temperature_ws_sender),
           (EventsResources, events_temperature_source)]))"

definition temperature_receiver_block :: "'sdp nmos_lib \<Rightarrow> nmos_make \<Rightarrow> settings \<Rightarrow> block" where
  "temperature_receiver_block lib mk st m =
     (let temperature_wildcard = measurement mk event_number ''temperature'' event_wildcard
      in
      bind_err (add_group_hint mk
                  (make_data_receiver mk (temperature_ws_receiver_id lib st) (device_id lib st)
                     websocket [''example''] application_json [temperature_wildcard] st)
                  (make_group_hint mk (''example'', ''receiver 1''))) (\<lambda>temperature_receiver.
      bind_err (resolve_active lib st temperature_receiver
                  (make_connection_events_websocket_receiver mk
                     (temperature_ws_receiver_id lib st) st))
        (\<lambda>connection_temperature_receiver.
      Inr [(NodeResources, temperature_receiver),
           (ConnectionResources, connection_temperature_receiver)])))"

text \<open>The blocks of \<^verbatim>\<open>node_implementation_thread\<close> up to the start of the periodic task.\<close>

definition setup_blocks :: "'sdp nmos_lib \<Rightarrow> nmos_make \<Rightarrow> settings \<Rightarrow> block list" where
  "setup_blocks lib mk st =
     [node_block lib mk st, device_block lib mk st, source_flow_block lib mk st,
      sender_block lib mk st, receiver_block lib mk st]
     @ (if 0 \<le> events_port st then [temperature_block lib mk st] else [])
     @ [temperature_receiver_block lib mk st]"

definition node_implementation_setup ::
  "'sdp nmos_lib \<Rightarrow> nmos_make \<Rightarrow> settings \<Rightarrow> (nat \<Rightarrow> bool) \<Rightarrow> node_model \<Rightarrow>
     (error + bool) \<times> node_model" where
  "node_implementation_setup lib mk st raised m = run_blocks raised (setup_blocks lib mk st) m"

section \<open>Notions used to state the properties\<close>

text \<open>
  The resolver's first step for the two RTP identities is the library's
  \<^verbatim>\<open>nmos::resolve_rtp_auto\<close>; for every other identity there is no such step.
\<close>

definition rtp_defaults :: "'sdp nmos_lib \<Rightarrow> settings \<Rightarrow> resource \<Rightarrow> json \<Rightarrow> error + json" where
  "rtp_defaults lib st connection_resource tp =
     (if resource_id connection_resource = sender_id lib st \<or>
         resource_id connection_resource = receiver_id lib st
      then resolve_rtp_auto lib (resource_type connection_resource) tp
      else Inr tp)"

text \<open>The value of the parameter \<open>k\<close> of leg \<open>i\<close>, if the set has such a leg and parameter.\<close>

definition param_of :: "json \<Rightarrow> nat \<Rightarrow> string \<Rightarrow> json option" where
  "param_of tp i k =
     (case tp of
        JArray legs \<Rightarrow>
          (if i < length legs
           then (case legs ! i of JObject fs \<Rightarrow> map_of fs k | _ \<Rightarrow> None)
           else None)
      | _ \<Rightarrow> None)"

text \<open>
  The statements of the sender branch that follow the call of the library's
  \<^verbatim>\<open>nmos::resolve_rtp_auto\<close>: the four calls of \<^verbatim>\<open>nmos::details::resolve_auto\<close> for the
  addresses of the two legs.
\<close>

definition sender_ip_steps :: "json \<Rightarrow> error + json" where
  "sender_ip_steps tp =
     bind_err (modify_index tp 0
       (\<lambda>p. resolve_auto p source_ip (JString ''192.168.255.0''))) (\<lambda>tp.
     bind_err (modify_index tp 1
       (\<lambda>p. resolve_auto p source_ip (JString ''192.168.255.1''))) (\<lambda>tp.
     bind_err (modify_index tp 0
       (\<lambda>p. resolve_auto p destination_ip (JString ''239.255.255.0''))) (\<lambda>tp.
     modify_index tp 1
       (\<lambda>p. resolve_auto p destination_ip (JString ''239.255.255.1'')))))"

section \<open>A concrete library and concrete resources\<close>

text \<open>
  An instance of the library parameters on which the definitions can be evaluated:
  identifiers are the seed followed by the path, the RTP defaults resolve the two ports
  of every leg, and the SDP functions keep their arguments.
\<close>

definition example_settings :: settings where
  "example_settings = \<lparr>seed_id = ''seed'', events_port = 3216\<rparr>"

definition example_rtp_auto :: "nmos_type \<Rightarrow> json \<Rightarrow> error + json" where
  "example_rtp_auto t tp =
     (case tp of
        JArray legs \<Rightarrow>
          Inr (JArray (map (\<lambda>p. resolve_auto (resolve_auto p ''source_port'' (JNumber 5004))
                                  ''destination_port'' (JNumber 5004)) legs))
      | _ \<Rightarrow> Inl (json_exception ''not an array''))"

definition example_lib :: "json nmos_lib" where
  "example_lib =
     \<lparr>make_repeatable_id = (\<lambda>seed name. seed @ name),
      make_events_ws_api_connection_uri = (\<lambda>device st. ''ws://host/events/'' @ device),
      resolve_rtp_auto = example_rtp_auto,
      make_sdp_parameters = (\<lambda>source flow sender ids. Inr (JArray [source, flow, sender])),
      make_session_description = (\<lambda>sdp_params tp. Inr (JArray [sdp_params, tp])),
      sdp_make_session_description = (\<lambda>description. Inr ''v=0''),
      make_connection_rtp_sender_transportfile =
        (\<lambda>sdp. JObject [(''data'', JString sdp), (''type'', JString ''application/sdp'')])\<rparr>"

definition example_resource :: "string \<Rightarrow> nmos_type \<Rightarrow> resource" where
  "example_resource i t =
     \<lparr>resource_id = i, resource_type = t, resource_data = JObject [(''id'', JString i)]\<rparr>"

definition example_connection :: "string \<Rightarrow> nmos_type \<Rightarrow> json \<Rightarrow> resource" where
  "example_connection i t tp =
     \<lparr>resource_id = i, resource_type = t,
      resource_data = JObject [(''id'', JString i),
                               (''active'', JObject [(''transport_params'', tp)])]\<rparr>"

definition example_sender_legs :: json where
  "example_sender_legs =
     JArray
       [JObject [(''source_ip'', auto_marker), (''destination_ip'', auto_marker),
                 (''source_port'', auto_marker), (''destination_port'', JNumber 5004)],
        JObject [(''source_ip'', auto_marker), (''destination_ip'', auto_marker),
                 (''source_port'', auto_marker), (''destination_port'', JNumber 5004)]]"

definition example_make :: nmos_make where
  "example_make =
     \<lparr>make_node = (\<lambda>i st. example_resource i Node),
      make_device = (\<lambda>i node senders receivers st. example_resource i Device),
      make_video_source = (\<lambda>i device rate st. example_resource i Source),
      make_raw_video_flow = (\<lambda>i source device st. example_resource i Flow),
      make_sender = (\<lambda>i flow device interfaces st. example_resource i Sender),
      make_sender_transport =
        (\<lambda>i flow tr device href interfaces st. example_resource i Sender),
      make_connection_rtp_sender = (\<lambda>i smpte2022_7. example_connection i Sender example_sender_legs),
      make_video_receiver = (\<lambda>i device tr interfaces st. example_resource i Receiver),
      make_connection_rtp_receiver =
        (\<lambda>i smpte2022_7. example_connection i Receiver
           (JArray [JObject [(''interface_ip'', auto_marker)],
                    JObject [(''interface_ip'', auto_marker)]])),
      measurement = (\<lambda>base name unit. base @ ''/'' @ name @ ''/'' @ unit),
      make_data_source = (\<lambda>i device rate event_type st. example_resource i Source),
      make_events_number_type = (\<lambda>lo hi step unit. JObject [(''unit'', JString unit)]),
      make_events_number_state = (\<lambda>i number. JObject [(''source_id'', JString i)]),
      make_events_source = (\<lambda>i state type. example_resource i Source),
      make_data_flow = (\<lambda>i source device media_type st. example_resource i Flow),
      make_connection_events_websocket_sender =
        (\<lambda>i device source st. example_connection i Sender
           (JArray [JObject [(''connection_uri'', auto_marker),
                             (''connection_authorization'', auto_marker)]])),
      make_data_receiver =
        (\<lambda>i device tr interfaces media_type event_types st. example_resource i Receiver),
      make_connection_events_websocket_receiver =
        (\<lambda>i st. example_connection i Receiver
           (JArray [JObject [(''connection_uri'', JNull),
                             (''connection_authorization'', auto_marker)]])),
      make_group_hint = (\<lambda>names. JString (fst names @ '':'' @ snd names)),
      push_back =
        (\<lambda>array element.
           case array of
             JNull \<Rightarrow> Inr (JArray [element])
           | JArray xs \<Rightarrow> Inr (JArray (xs @ [element]))
           | _ \<Rightarrow> Inl (json_exception ''not an array''))\<rparr>"

definition example_model :: node_model where
  "example_model =
     \<lparr>node_resources = [], connection_resources = [], events_resources = [],
      shutdown = False, notifications = 0, waits = 0\<rparr>"

definition example_resolved_legs :: json where
  "example_resolved_legs =
     JArray
       [JObject [(''source_ip'', JString ''192.168.255.0''),
                 (''destination_ip'', JString ''239.255.255.0''),
                 (''source_port'', JNumber 5004), (''destination_port'', JNumber 5004)],
        JObject [(''source_ip'', JString ''192.168.255.1''),
                 (''destination_ip'', JString ''239.255.255.1''),
                 (''source_port'', JNumber 5004), (''destination_port'', JNumber 5004)]]"

definition example_ws_receiver_legs :: json where
  "example_ws_receiver_legs =
     JArray [JObject [(''connection_uri'', auto_marker),
                      (''connection_authorization'', auto_marker)]]"

definition example_ws_receiver_resolved :: json where
  "example_ws_receiver_resolved =
     JArray [JObject [(''connection_uri'', auto_marker),
                      (''connection_authorization'', JBoolean False)]]"

definition example_ws_sender_legs :: json where
  "example_ws_sender_legs =
     JArray [JObject [(''connection_uri'', JString ''ws://host/events''),
                      (''connection_authorization'', JBoolean False)]]"

definition example_store :: resources where
  "example_store =
     [example_resource ''seed/x-nmos/node/source/0'' Source,
      example_resource ''seed/x-nmos/node/flow/0'' Flow]"

definition example_node :: resource where
  "example_node =
     \<lparr>resource_id = ''seed/x-nmos/node/self'', resource_type = Node,
      resource_data =
        JObject [(''id'', JString ''seed/x-nmos/node/self''),
                 (''interfaces'',
                  JArray [JObject [(''chassis_id'', JNull),
                                   (''port_id'', JString ''ff-ff-ff-ff-ff-ff''),
                                   (''name'', JString ''example'')]])]\<rparr>"

text \<open>
  A run in which the flow is a duplicate: the node resources hold a flow with the flow's
  identifier before the thread starts.
\<close>

definition example_flow :: resource where
  "example_flow = example_resource ''seed/x-nmos/node/flow/0'' Flow"

definition example_duplicate_model :: node_model where
  "example_duplicate_model = example_model\<lparr>node_resources := [example_flow]\<rparr>"

definition example_after_device :: node_model where
  "example_after_device =
     \<lparr>node_resources =
        [example_flow, example_node, example_resource ''seed/x-nmos/node/device/0'' Device],
      connection_resources = [], events_resources = [],
      shutdown = False, notifications = 2, waits = 2\<rparr>"

definition example_after_source :: node_model where
  "example_after_source =
     \<lparr>node_resources =
        [example_flow, example_node, example_resource ''seed/x-nmos/node/device/0'' Device,
         example_resource ''seed/x-nmos/node/source/0'' Source],
      connection_resources = [], events_resources = [],
      shutdown = False, notifications = 3, waits = 3\<rparr>"

definition example_after_flow :: node_model where
  "example_after_flow =
     \<lparr>node_resources =
        [example_flow, example_node, example_resource ''seed/x-nmos/node/device/0'' Device,
         example_resource ''seed/x-nmos/node/source/0'' Source],
      connection_resources = [], events_resources = [],
      shutdown = False, notifications = 4, waits = 4\<rparr>"

definition example_shutdown_model :: node_model where
  "example_shutdown_model = example_model\<lparr>shutdown := True\<rparr>"







lemmas example_defs = example_lib_def example_settings_def example_resource_def
  example_connection_def example_sender_legs_def example_rtp_auto_def

lemmas id_defs = sender_id_def receiver_id_def temperature_ws_sender_id_def
  temperature_ws_receiver_id_def device_id_def source_id_def flow_id_def

section \<open>Properties of the auto-resolver\<close>

subsection \<open>The branches of the resolver\<close>

lemma auto_resolver_sender:
  "sender_id lib st = resource_id c \<Longrightarrow>
   auto_resolver lib st r c tp =
     bind_err (resolve_rtp_auto lib (resource_type c) tp) (\<lambda>tp.
     bind_err (modify_index tp 0
       (\<lambda>p. resolve_auto p source_ip (JString ''192.168.255.0''))) (\<lambda>tp.
     bind_err (modify_index tp 1
       (\<lambda>p. resolve_auto p source_ip (JString ''192.168.255.1''))) (\<lambda>tp.
     bind_err (modify_index tp 0
       (\<lambda>p. resolve_auto p destination_ip (JString ''239.255.255.0''))) (\<lambda>tp.
     modify_index tp 1
       (\<lambda>p. resolve_auto p destination_ip (JString ''239.255.255.1''))))))"
  by (simp add: auto_resolver_def Let_def)

lemma auto_resolver_receiver:
  "sender_id lib st \<noteq> resource_id c \<Longrightarrow> receiver_id lib st = resource_id c \<Longrightarrow>
   auto_resolver lib st r c tp =
     bind_err (resolve_rtp_auto lib (resource_type c) tp) (\<lambda>tp.
     bind_err (modify_index tp 0
       (\<lambda>p. resolve_auto p interface_ip (JString ''192.168.255.2''))) (\<lambda>tp.
     modify_index tp 1
       (\<lambda>p. resolve_auto p interface_ip (JString ''192.168.255.3''))))"
  by (simp add: auto_resolver_def Let_def)

lemma auto_resolver_ws_sender:
  "sender_id lib st \<noteq> resource_id c \<Longrightarrow> receiver_id lib st \<noteq> resource_id c \<Longrightarrow>
   temperature_ws_sender_id lib st = resource_id c \<Longrightarrow>
   auto_resolver lib st r c tp =
     bind_err (modify_index tp 0
       (\<lambda>p. resolve_auto p connection_uri
          (JString (make_events_ws_api_connection_uri lib (device_id lib st) st)))) (\<lambda>tp.
     modify_index tp 0
       (\<lambda>p. resolve_auto p connection_authorization (JBoolean False)))"
  by (simp add: auto_resolver_def Let_def)

lemma auto_resolver_ws_receiver:
  "sender_id lib st \<noteq> resource_id c \<Longrightarrow> receiver_id lib st \<noteq> resource_id c \<Longrightarrow>
   temperature_ws_sender_id lib st \<noteq> resource_id c \<Longrightarrow>
   temperature_ws_receiver_id lib st = resource_id c \<Longrightarrow>
   auto_resolver lib st r c tp =
     modify_index tp 0 (\<lambda>p. resolve_auto p connection_authorization (JBoolean False))"
  by (simp add: auto_resolver_def Let_def)

lemma auto_resolver_no_branch:
  "sender_id lib st \<noteq> resource_id c \<Longrightarrow> receiver_id lib st \<noteq> resource_id c \<Longrightarrow>
   temperature_ws_sender_id lib st \<noteq> resource_id c \<Longrightarrow>
   temperature_ws_receiver_id lib st \<noteq> resource_id c \<Longrightarrow>
   auto_resolver lib st r c tp = Inr tp"
  by (simp add: auto_resolver_def Let_def)

subsection \<open>Unknown identities\<close>

text \<open>
  Claim C6. For every connection resource whose id is none of the recognized identities
  (primary sender, primary receiver, websocket temperature sender, websocket temperature
  receiver), the resolver returns the transport parameter set exactly as it was given,
  and raises no error.
\<close>

theorem auto_resolver_unknown_identity:
  assumes "\<not> recognized lib st (resource_id connection_resource)"
  shows "auto_resolver lib st resource connection_resource tp = Inr tp"
  using assms by (auto simp: recognized_def auto_resolver_def Let_def)

theorem auto_resolver_unknown_identity_witness:
  "\<not> recognized example_lib example_settings
       (resource_id (example_connection ''seed/x-nmos/node/sender/9'' Sender example_sender_legs)) \<and>
   auto_resolver example_lib example_settings
     (example_resource ''seed/x-nmos/node/sender/9'' Sender)
     (example_connection ''seed/x-nmos/node/sender/9'' Sender example_sender_legs)
     example_sender_legs = Inr example_sender_legs"
proof -
  have h: "\<not> recognized example_lib example_settings
       (resource_id (example_connection ''seed/x-nmos/node/sender/9'' Sender example_sender_legs))"
    by (simp add: recognized_def example_defs id_defs)
  from h auto_resolver_unknown_identity [OF h] show ?thesis by simp
qed

subsection \<open>What is left marked auto\<close>

lemma resolve_auto_object:
  "\<exists>fs'. resolve_auto (JObject fs) k v = JObject fs' \<and>
     map_of fs' = (if map_of fs k = Some auto_marker then (map_of fs)(k \<mapsto> v) else map_of fs)"
  by (simp add: resolve_auto_def AList.update_conv')

lemma resolve_auto_not_object:
  "(\<forall>fs. p \<noteq> JObject fs) \<Longrightarrow> resolve_auto p k v = p"
  by (cases p) (simp_all add: resolve_auto_def)

lemma param_of_resolve_auto:
  assumes "resolve_auto p k v = JObject fs'" and "map_of fs' k' = Some auto_marker"
  shows "\<exists>fs. p = JObject fs \<and> map_of fs k' = Some auto_marker"
proof (cases "\<exists>fs. p = JObject fs")
  case False
  with assms show ?thesis by (simp add: resolve_auto_not_object)
next
  case True
  then obtain fs where p: "p = JObject fs" by blast
  from resolve_auto_object [of fs k v] assms p
  have "map_of fs' = (if map_of fs k = Some auto_marker then (map_of fs)(k \<mapsto> v) else map_of fs)"
    by auto
  with assms(2) have "map_of fs k' = Some auto_marker"
    by (auto split: if_splits)
  with p show ?thesis by simp
qed

lemma modify_index_passes_auto:
  "\<exists>ys. modify_index (JArray xs) i (\<lambda>p. resolve_auto p k v) = Inr (JArray ys) \<and>
     (\<forall>j k'. param_of (JArray ys) j k' = Some auto_marker \<longrightarrow>
        param_of (JArray xs) j k' = Some auto_marker)"
proof -
  define zs where "zs = xs @ replicate (Suc i - length xs) JNull"
  define ys where "ys = zs[i := resolve_auto (zs ! i) k v]"
  have run: "modify_index (JArray xs) i (\<lambda>p. resolve_auto p k v) = Inr (JArray ys)"
    by (simp add: modify_index_def bind_err_def ys_def zs_def)
  have i: "i < length zs" by (simp add: zs_def)
  have pass: "param_of (JArray xs) j k' = Some auto_marker"
    if auto: "param_of (JArray ys) j k' = Some auto_marker" for j k'
  proof -
    from auto have j: "j < length zs"
      by (simp add: param_of_def ys_def split: if_splits)
    from auto j obtain fs' where leg: "ys ! j = JObject fs'"
      and val: "map_of fs' k' = Some auto_marker"
      by (auto simp: param_of_def ys_def split: json.splits)
    have "\<exists>fs. zs ! j = JObject fs \<and> map_of fs k' = Some auto_marker"
    proof (cases "j = i")
      case True
      with leg i have "resolve_auto (zs ! j) k v = JObject fs'" by (simp add: ys_def)
      then show ?thesis using val by (rule param_of_resolve_auto)
    next
      case False
      with leg have "zs ! j = JObject fs'" by (simp add: ys_def)
      with val show ?thesis by simp
    qed
    then obtain fs where zj: "zs ! j = JObject fs" and v: "map_of fs k' = Some auto_marker"
      by blast
    have "j < length xs"
    proof (rule ccontr)
      assume "\<not> j < length xs"
      with j have "zs ! j = JNull" by (simp add: zs_def nth_append)
      with zj show False by simp
    qed
    with zj v show ?thesis by (simp add: param_of_def zs_def nth_append)
  qed
  from run pass show ?thesis by blast
qed

text \<open>
  Claim C1 says that a parameter still marked auto after the resolver returns is
  surfaced as an error. The resolver has no such check. For the websocket temperature
  receiver it resolves \<open>connection_authorization\<close> of the first leg only: a
  \<open>connection_uri\<close> marked auto is returned as it was, and the call returns normally.
\<close>

theorem unresolved_auto_not_surfaced:
  "recognized example_lib example_settings
     (resource_id (example_connection ''seed/x-nmos/node/receiver/1'' Receiver
        example_ws_receiver_legs)) \<and>
   auto_resolver example_lib example_settings
     (example_resource ''seed/x-nmos/node/receiver/1'' Receiver)
     (example_connection ''seed/x-nmos/node/receiver/1'' Receiver example_ws_receiver_legs)
     example_ws_receiver_legs = Inr example_ws_receiver_resolved \<and>
   has_auto example_ws_receiver_resolved"
proof -
  have "recognized example_lib example_settings
     (resource_id (example_connection ''seed/x-nmos/node/receiver/1'' Receiver
        example_ws_receiver_legs))"
    by (simp add: recognized_def example_defs id_defs)
  moreover have "auto_resolver example_lib example_settings
     (example_resource ''seed/x-nmos/node/receiver/1'' Receiver)
     (example_connection ''seed/x-nmos/node/receiver/1'' Receiver example_ws_receiver_legs)
     example_ws_receiver_legs = Inr example_ws_receiver_resolved"
    by code_simp
  moreover have "has_auto example_ws_receiver_resolved"
    by code_simp
  ultimately show ?thesis by simp
qed

text \<open>
  Claim C1 as amended. For every identity and every parameter set that the library's
  RTP defaults turn into an array of legs (for the identities without that step: every
  array of legs), the resolver returns normally, whether or not a parameter is still
  marked auto; and a parameter marked auto in the result was marked auto before the
  callback's own steps ran: it is passed through, not reported.
\<close>

theorem auto_resolver_passes_auto_through:
  assumes library: "rtp_defaults lib st connection_resource tp = Inr (JArray legs)"
  shows "\<exists>legs'. auto_resolver lib st resource connection_resource tp = Inr (JArray legs') \<and>
           (\<forall>i k. param_of (JArray legs') i k = Some auto_marker \<longrightarrow>
              param_of (JArray legs) i k = Some auto_marker)"
proof -
  let ?i = "resource_id connection_resource"
  note step = modify_index_passes_auto
  consider (sender) "sender_id lib st = ?i"
    | (receiver) "sender_id lib st \<noteq> ?i" "receiver_id lib st = ?i"
    | (ws_sender) "sender_id lib st \<noteq> ?i" "receiver_id lib st \<noteq> ?i"
        "temperature_ws_sender_id lib st = ?i"
    | (ws_receiver) "sender_id lib st \<noteq> ?i" "receiver_id lib st \<noteq> ?i"
        "temperature_ws_sender_id lib st \<noteq> ?i" "temperature_ws_receiver_id lib st = ?i"
    | (unknown) "sender_id lib st \<noteq> ?i" "receiver_id lib st \<noteq> ?i"
        "temperature_ws_sender_id lib st \<noteq> ?i" "temperature_ws_receiver_id lib st \<noteq> ?i"
    by blast
  then show ?thesis
  proof cases
    case sender
    from library sender
    have lib1: "resolve_rtp_auto lib (resource_type connection_resource) tp = Inr (JArray legs)"
      by (simp add: rtp_defaults_def)
    obtain l1 where s1: "modify_index (JArray legs) 0
          (\<lambda>p. resolve_auto p source_ip (JString ''192.168.255.0'')) = Inr (JArray l1)"
      and p1: "\<And>i k. param_of (JArray l1) i k = Some auto_marker \<Longrightarrow>
                 param_of (JArray legs) i k = Some auto_marker"
      using step [of legs 0 source_ip "JString ''192.168.255.0''"] by blast
    obtain l2 where s2: "modify_index (JArray l1) 1
          (\<lambda>p. resolve_auto p source_ip (JString ''192.168.255.1'')) = Inr (JArray l2)"
      and p2: "\<And>i k. param_of (JArray l2) i k = Some auto_marker \<Longrightarrow>
                 param_of (JArray l1) i k = Some auto_marker"
      using step [of l1 1 source_ip "JString ''192.168.255.1''"] by blast
    obtain l3 where s3: "modify_index (JArray l2) 0
          (\<lambda>p. resolve_auto p destination_ip (JString ''239.255.255.0'')) = Inr (JArray l3)"
      and p3: "\<And>i k. param_of (JArray l3) i k = Some auto_marker \<Longrightarrow>
                 param_of (JArray l2) i k = Some auto_marker"
      using step [of l2 0 destination_ip "JString ''239.255.255.0''"] by blast
    obtain l4 where s4: "modify_index (JArray l3) 1
          (\<lambda>p. resolve_auto p destination_ip (JString ''239.255.255.1'')) = Inr (JArray l4)"
      and p4: "\<And>i k. param_of (JArray l4) i k = Some auto_marker \<Longrightarrow>
                 param_of (JArray l3) i k = Some auto_marker"
      using step [of l3 1 destination_ip "JString ''239.255.255.1''"] by blast
    have "auto_resolver lib st resource connection_resource tp = Inr (JArray l4)"
      using lib1 s1 s2 s3 s4 by (simp add: auto_resolver_sender [OF sender] bind_err_def)
    moreover have "param_of (JArray legs) i k = Some auto_marker"
      if "param_of (JArray l4) i k = Some auto_marker" for i k
      using that by (intro p1 p2 p3 p4)
    ultimately show ?thesis by blast
  next
    case receiver
    from library receiver
    have lib1: "resolve_rtp_auto lib (resource_type connection_resource) tp = Inr (JArray legs)"
      by (simp add: rtp_defaults_def)
    obtain l1 where s1: "modify_index (JArray legs) 0
          (\<lambda>p. resolve_auto p interface_ip (JString ''192.168.255.2'')) = Inr (JArray l1)"
      and p1: "\<And>i k. param_of (JArray l1) i k = Some auto_marker \<Longrightarrow>
                 param_of (JArray legs) i k = Some auto_marker"
      using step [of legs 0 interface_ip "JString ''192.168.255.2''"] by blast
    obtain l2 where s2: "modify_index (JArray l1) 1
          (\<lambda>p. resolve_auto p interface_ip (JString ''192.168.255.3'')) = Inr (JArray l2)"
      and p2: "\<And>i k. param_of (JArray l2) i k = Some auto_marker \<Longrightarrow>
                 param_of (JArray l1) i k = Some auto_marker"
      using step [of l1 1 interface_ip "JString ''192.168.255.3''"] by blast
    have "auto_resolver lib st resource connection_resource tp = Inr (JArray l2)"
      using lib1 s1 s2 by (simp add: auto_resolver_receiver [OF receiver] bind_err_def)
    moreover have "param_of (JArray legs) i k = Some auto_marker"
      if "param_of (JArray l2) i k = Some auto_marker" for i k
      using that by (intro p1 p2)
    ultimately show ?thesis by blast
  next
    case ws_sender
    let ?uri = "JString (make_events_ws_api_connection_uri lib (device_id lib st) st)"
    from library ws_sender have tp: "tp = JArray legs"
      by (simp add: rtp_defaults_def)
    obtain l1 where s1: "modify_index (JArray legs) 0
          (\<lambda>p. resolve_auto p connection_uri ?uri) = Inr (JArray l1)"
      and p1: "\<And>i k. param_of (JArray l1) i k = Some auto_marker \<Longrightarrow>
                 param_of (JArray legs) i k = Some auto_marker"
      using step [of legs 0 connection_uri ?uri] by blast
    obtain l2 where s2: "modify_index (JArray l1) 0
          (\<lambda>p. resolve_auto p connection_authorization (JBoolean False)) = Inr (JArray l2)"
      and p2: "\<And>i k. param_of (JArray l2) i k = Some auto_marker \<Longrightarrow>
                 param_of (JArray l1) i k = Some auto_marker"
      using step [of l1 0 connection_authorization "JBoolean False"] by blast
    have "auto_resolver lib st resource connection_resource tp = Inr (JArray l2)"
      using s1 s2 by (simp add: auto_resolver_ws_sender [OF ws_sender] tp bind_err_def)
    moreover have "param_of (JArray legs) i k = Some auto_marker"
      if "param_of (JArray l2) i k = Some auto_marker" for i k
      using that by (intro p1 p2)
    ultimately show ?thesis by blast
  next
    case ws_receiver
    from library ws_receiver have tp: "tp = JArray legs"
      by (simp add: rtp_defaults_def)
    obtain l1 where s1: "modify_index (JArray legs) 0
          (\<lambda>p. resolve_auto p connection_authorization (JBoolean False)) = Inr (JArray l1)"
      and p1: "\<And>i k. param_of (JArray l1) i k = Some auto_marker \<Longrightarrow>
                 param_of (JArray legs) i k = Some auto_marker"
      using step [of legs 0 connection_authorization "JBoolean False"] by blast
    have "auto_resolver lib st resource connection_resource tp = Inr (JArray l1)"
      using s1 by (simp add: auto_resolver_ws_receiver [OF ws_receiver] tp)
    with p1 show ?thesis by blast
  next
    case unknown
    from library unknown have tp: "tp = JArray legs"
      by (simp add: rtp_defaults_def)
    have "auto_resolver lib st resource connection_resource tp = Inr (JArray legs)"
      by (simp add: auto_resolver_no_branch [OF unknown] tp)
    then show ?thesis by blast
  qed
qed

theorem auto_resolver_passes_auto_through_witness:
  "rtp_defaults example_lib example_settings
     (example_connection ''seed/x-nmos/node/receiver/1'' Receiver example_ws_receiver_legs)
     example_ws_receiver_legs = Inr example_ws_receiver_legs \<and>
   auto_resolver example_lib example_settings
     (example_resource ''seed/x-nmos/node/receiver/1'' Receiver)
     (example_connection ''seed/x-nmos/node/receiver/1'' Receiver example_ws_receiver_legs)
     example_ws_receiver_legs = Inr example_ws_receiver_resolved \<and>
   param_of example_ws_receiver_resolved 0 connection_uri = Some auto_marker \<and>
   param_of example_ws_receiver_legs 0 connection_uri = Some auto_marker"
proof -
  let ?c = "example_connection ''seed/x-nmos/node/receiver/1'' Receiver example_ws_receiver_legs"
  let ?r = "example_resource ''seed/x-nmos/node/receiver/1'' Receiver"
  have library: "rtp_defaults example_lib example_settings ?c example_ws_receiver_legs
      = Inr (JArray [JObject [(''connection_uri'', auto_marker),
                      (''connection_authorization'', auto_marker)]])"
    by (simp add: rtp_defaults_def example_defs id_defs example_ws_receiver_legs_def)
  have run: "auto_resolver example_lib example_settings ?r ?c example_ws_receiver_legs
      = Inr example_ws_receiver_resolved"
    by code_simp
  have after: "param_of example_ws_receiver_resolved 0 connection_uri = Some auto_marker"
    by code_simp
  from auto_resolver_passes_auto_through [OF library, of ?r] run
  have "\<forall>i k. param_of example_ws_receiver_resolved i k = Some auto_marker \<longrightarrow>
      param_of example_ws_receiver_legs i k = Some auto_marker"
    by (simp add: example_ws_receiver_legs_def example_ws_receiver_resolved_def)
  with after have "param_of example_ws_receiver_legs 0 connection_uri = Some auto_marker"
    by blast
  with library run after show ?thesis
    by (simp add: example_ws_receiver_legs_def)
qed

subsection \<open>The order of the sender's steps\<close>

text \<open>
  The sender branch is the library's RTP defaults followed by the four steps for the
  addresses: the library runs while \<open>source_ip\<close> and \<open>destination_ip\<close> may still be
  marked auto.
\<close>

lemma sender_branch_steps:
  "sender_id lib st = resource_id c \<Longrightarrow>
   auto_resolver lib st r c tp =
     bind_err (resolve_rtp_auto lib (resource_type c) tp) sender_ip_steps"
  by (simp add: auto_resolver_sender sender_ip_steps_def [abs_def])



section \<open>Properties of the transport file setter\<close>

text \<open>
  Claim C10. The setter writes the output parameter only for the primary RTP sender:
  for every connection sender whose id is not the sender id made from the seed (the
  websocket temperature sender is one), it returns normally and leaves the output
  parameter and the node resources as they were.
\<close>

theorem transportfile_setter_other_sender:
  assumes "sender_id lib st \<noteq> resource_id connection_sender"
  shows "transportfile_setter lib st sender connection_sender (nr, out) = (Inr (), (nr, out))"
  using assms by (simp add: transportfile_setter_def)

theorem transportfile_setter_other_sender_witness:
  "sender_id example_lib example_settings \<noteq>
     resource_id (example_connection ''seed/x-nmos/node/sender/1'' Sender example_ws_sender_legs) \<and>
   transportfile_setter example_lib example_settings
     (example_resource ''seed/x-nmos/node/sender/1'' Sender)
     (example_connection ''seed/x-nmos/node/sender/1'' Sender example_ws_sender_legs)
     (example_store, JNull) = (Inr (), (example_store, JNull))"
proof -
  have h: "sender_id example_lib example_settings \<noteq>
     resource_id (example_connection ''seed/x-nmos/node/sender/1'' Sender example_ws_sender_legs)"
    by (simp add: example_defs id_defs)
  from h transportfile_setter_other_sender [OF h] show ?thesis by simp
qed

text \<open>
  Claim C3 says that the build fails with a lookup error for every sender whose source
  or flow is absent. The setter looks resources up only behind its guard on the primary
  sender's id: for the websocket temperature sender and an empty store, where every
  source and flow is absent, it returns normally.
\<close>

theorem missing_flow_not_reported_for_other_sender:
  "resource_type (example_connection ''seed/x-nmos/node/sender/1'' Sender
      example_ws_sender_legs) = Sender \<and>
   find_resource [] (source_id example_lib example_settings, Source) = None \<and>
   find_resource [] (flow_id example_lib example_settings, Flow) = None \<and>
   find_resource [] (temperature_source_id example_lib example_settings, Source) = None \<and>
   find_resource [] (temperature_flow_id example_lib example_settings, Flow) = None \<and>
   transportfile_setter example_lib example_settings
     (example_resource ''seed/x-nmos/node/sender/1'' Sender)
     (example_connection ''seed/x-nmos/node/sender/1'' Sender example_ws_sender_legs)
     ([], JNull) = (Inr (), ([], JNull))"
  by (simp add: find_resource_def transportfile_setter_def example_defs id_defs)

text \<open>
  Claim C3 as amended. For the primary RTP sender, when the source or the flow with the
  fixed identifiers made from the seed is absent from the node resources, the setter
  throws \<^verbatim>\<open>std::logic_error\<close> and leaves the output parameter and the node resources
  as they were.
\<close>

theorem transportfile_setter_missing_source_or_flow:
  assumes "sender_id lib st = resource_id connection_sender"
    and "find_resource nr (source_id lib st, Source) = None \<or>
         find_resource nr (flow_id lib st, Flow) = None"
  shows "transportfile_setter lib st sender connection_sender (nr, out) =
           (Inl (logic_error ''matching IS-04 source or flow not found''), (nr, out))"
  using assms
  by (auto simp: transportfile_setter_def build_transportfile_def split: option.splits)

theorem transportfile_setter_missing_source_or_flow_witness:
  "sender_id example_lib example_settings =
     resource_id (example_connection ''seed/x-nmos/node/sender/0'' Sender example_resolved_legs) \<and>
   find_resource [example_resource ''seed/x-nmos/node/source/0'' Source]
     (flow_id example_lib example_settings, Flow) = None \<and>
   transportfile_setter example_lib example_settings
     (example_resource ''seed/x-nmos/node/sender/0'' Sender)
     (example_connection ''seed/x-nmos/node/sender/0'' Sender example_resolved_legs)
     ([example_resource ''seed/x-nmos/node/source/0'' Source], JNull) =
   (Inl (logic_error ''matching IS-04 source or flow not found''),
    ([example_resource ''seed/x-nmos/node/source/0'' Source], JNull))"
proof -
  let ?c = "example_connection ''seed/x-nmos/node/sender/0'' Sender example_resolved_legs"
  let ?nr = "[example_resource ''seed/x-nmos/node/source/0'' Source]"
  have a: "sender_id example_lib example_settings = resource_id ?c"
    by (simp add: example_defs id_defs)
  have b: "find_resource ?nr (flow_id example_lib example_settings, Flow) = None"
    by (simp add: find_resource_def example_defs id_defs)
  then have c: "find_resource ?nr (source_id example_lib example_settings, Source) = None \<or>
      find_resource ?nr (flow_id example_lib example_settings, Flow) = None"
    by simp
  from a b transportfile_setter_missing_source_or_flow [OF a c] show ?thesis by simp
qed

section \<open>Properties of the temperature value\<close>

lemma smod_nonneg: "0 \<le> (t::int) \<Longrightarrow> t smod 100 = t mod 100"
  by (cases "t = 0") (simp_all add: smod_int_alt_def)

text \<open>
  Claim C7. The value of the periodic update is a function of the timestamp alone: for
  every non-negative count of seconds \<open>t\<close> it is \<open>175 + |t mod 100 - 50|\<close> at scale 10,
  which lies between 175 and 225, that is between 17.5 and 22.5 as a scaled value; at
  \<open>t = 150\<close> it is 175.
\<close>

theorem temperature_value_bounds:
  assumes "0 \<le> t"
  shows "number_value (temperature_value t) = 175 + real_of_int \<bar>t mod 100 - 50\<bar> \<and>
         number_scale (temperature_value t) = 10 \<and>
         175 \<le> number_value (temperature_value t) \<and>
         number_value (temperature_value t) \<le> 225 \<and>
         17.5 \<le> scaled_value (temperature_value t) \<and>
         scaled_value (temperature_value t) \<le> 22.5 \<and>
         number_value (temperature_value 150) = 175"
proof -
  have m: "0 \<le> t mod 100" "t mod 100 < 100" by simp_all
  then have b: "0 \<le> \<bar>t mod 100 - 50\<bar>" "\<bar>t mod 100 - 50\<bar> \<le> 50" by linarith+
  have v: "number_value (temperature_value t) = 175 + real_of_int \<bar>t mod 100 - 50\<bar>"
    using assms by (simp add: temperature_value_def smod_nonneg)
  have c: "number_value (temperature_value 150) = 175"
    by (simp add: temperature_value_def smod_nonneg)
  from b have r: "0 \<le> real_of_int \<bar>t mod 100 - 50\<bar>" "real_of_int \<bar>t mod 100 - 50\<bar> \<le> 50"
    by linarith+
  with v c show ?thesis
    by (simp add: scaled_value_def temperature_value_def)
qed

theorem temperature_value_bounds_witness:
  "(0::int) \<le> 150 \<and> number_value (temperature_value 150) = 175 \<and>
   scaled_value (temperature_value 150) = 17.5"
proof -
  have h: "(0::int) \<le> 150" by simp
  from temperature_value_bounds [OF h] show ?thesis
    by (simp add: scaled_value_def)
qed

section \<open>Properties of the thread\<close>

lemma insert_resource_after_shutdown:
  assumes "shutdown m \<or> raised (waits m)"
  shows "insert_resource_after raised ns r m =
           (False, m\<lparr>shutdown := True, waits := Suc (waits m)\<rparr>)"
  using assms by (auto simp: insert_resource_after_def wait_for_def)

lemma stores_set_same [simp]: "stores (set_resources ns (get_resources m ns) m) = stores m"
  by (cases ns) (simp_all add: stores_def)

lemma stores_fields [simp]:
  "stores (m\<lparr>shutdown := b\<rparr>) = stores m"
  "stores (m\<lparr>waits := n\<rparr>) = stores m"
  "stores (m\<lparr>notifications := k\<rparr>) = stores m"
  by (simp_all add: stores_def)

lemma get_resources_fields [simp]:
  "get_resources (m\<lparr>shutdown := b\<rparr>) ns = get_resources m ns"
  "get_resources (m\<lparr>waits := n\<rparr>) ns = get_resources m ns"
  by (cases ns; simp)+

lemma set_resources_fields:
  "set_resources ns rs (m\<lparr>shutdown := b, waits := n\<rparr>) =
     (set_resources ns rs m)\<lparr>shutdown := b, waits := n\<rparr>"
  by (cases ns) simp_all

lemma insert_resource_after_failed:
  assumes "insert_resource_after raised ns r m = (False, m')"
  shows "stores m' = stores m"
proof (cases "shutdown m \<or> raised (waits m)")
  case True
  then have "insert_resource_after raised ns r m =
      (False, m\<lparr>shutdown := True, waits := Suc (waits m)\<rparr>)"
    by (rule insert_resource_after_shutdown)
  with assms show ?thesis by auto
next
  case False
  with assms have "snd (insert_resource (get_resources m ns) r) = False"
    and m': "m' = notify (set_resources ns (fst (insert_resource (get_resources m ns) r))
               (m\<lparr>shutdown := False, waits := Suc (waits m)\<rparr>))"
    by (auto simp: insert_resource_after_def wait_for_def split: prod.splits)
  then have "fst (insert_resource (get_resources m ns) r) = get_resources m ns"
    by (simp add: insert_resource_def split: if_splits)
  with m' show ?thesis
    by (simp add: notify_def set_resources_fields)
qed

lemma insert_resources_after_append:
  "insert_resources_after raised (pre @ post) m =
     (case insert_resources_after raised pre m of
        (False, m') \<Rightarrow> (False, m')
      | (True, m') \<Rightarrow> insert_resources_after raised post m')"
  by (induction pre arbitrary: m) (auto split: prod.splits bool.splits)

lemma run_blocks_append:
  "run_blocks raised (pre @ post) m =
     (case run_blocks raised pre m of
        (Inr True, m') \<Rightarrow> run_blocks raised post m'
      | (res, m') \<Rightarrow> (res, m'))"
  by (induction pre arbitrary: m) (auto split: prod.splits bool.splits sum.splits)

lemma insert_resources_after_shutdown:
  assumes "shutdown m"
  shows "stores (snd (insert_resources_after raised reqs m)) = stores m \<and>
         notifications (snd (insert_resources_after raised reqs m)) = notifications m \<and>
         shutdown (snd (insert_resources_after raised reqs m)) \<and>
         (reqs \<noteq> [] \<longrightarrow> \<not> fst (insert_resources_after raised reqs m))"
proof (cases reqs)
  case Nil
  with assms show ?thesis by simp
next
  case (Cons req rest)
  from assms have "insert_resource_after raised (fst req) (snd req) m =
      (False, m\<lparr>shutdown := True, waits := Suc (waits m)\<rparr>)"
    by (simp add: insert_resource_after_shutdown)
  with Cons show ?thesis by simp
qed

lemma run_blocks_shutdown:
  assumes "shutdown m"
  shows "stores (snd (run_blocks raised bs m)) = stores m \<and>
         notifications (snd (run_blocks raised bs m)) = notifications m"
  using assms
proof (induction bs arbitrary: m)
  case Nil
  then show ?case by simp
next
  case (Cons b bs)
  show ?case
  proof (cases "b m")
    case (Inl e)
    then show ?thesis by simp
  next
    case (Inr reqs)
    obtain ok m' where run: "insert_resources_after raised reqs m = (ok, m')"
      by (cases "insert_resources_after raised reqs m")
    from insert_resources_after_shutdown [OF Cons.prems, of raised reqs] run
    have keep: "stores m' = stores m" "notifications m' = notifications m" "shutdown m'"
      by simp_all
    show ?thesis
    proof (cases ok)
      case True
      with Inr run Cons.IH [OF keep(3)] keep show ?thesis by simp
    next
      case False
      with Inr run keep show ?thesis by simp
    qed
  qed
qed

text \<open>
  Claim C9. When the shutdown flag is set at the start of the helper's timed wait, or is
  raised during it, the helper returns false: it inserts nothing and does not signal the
  change condition. From the model it leaves, no later insert of the thread, in the same
  block or in a later one, changes a namespace; and a thread started with the flag set
  inserts nothing and signals nothing.
\<close>

theorem shutdown_stops_inserting:
  assumes "shutdown m \<or> raised (waits m)"
  shows "insert_resource_after raised ns r m =
           (False, m\<lparr>shutdown := True, waits := Suc (waits m)\<rparr>) \<and>
         stores (snd (insert_resource_after raised ns r m)) = stores m \<and>
         notifications (snd (insert_resource_after raised ns r m)) = notifications m \<and>
         stores (snd (insert_resources_after raised reqs
                   (snd (insert_resource_after raised ns r m)))) = stores m \<and>
         stores (snd (run_blocks raised bs (snd (insert_resource_after raised ns r m)))) =
           stores m \<and>
         (shutdown m \<longrightarrow>
            stores (snd (node_implementation_setup lib mk st raised m)) = stores m \<and>
            notifications (snd (node_implementation_setup lib mk st raised m)) =
              notifications m)"
proof -
  let ?m' = "m\<lparr>shutdown := True, waits := Suc (waits m)\<rparr>"
  have helper: "insert_resource_after raised ns r m = (False, ?m')"
    using assms by (rule insert_resource_after_shutdown)
  have set: "shutdown ?m'" by simp
  have same: "stores ?m' = stores m" "notifications ?m' = notifications m" by simp_all
  from insert_resources_after_shutdown [OF set, of raised reqs] same
  have chain: "stores (snd (insert_resources_after raised reqs ?m')) = stores m" by simp
  from run_blocks_shutdown [OF set, of raised bs] same
  have blocks: "stores (snd (run_blocks raised bs ?m')) = stores m" by simp
  have "stores (snd (node_implementation_setup lib mk st raised m)) = stores m \<and>
        notifications (snd (node_implementation_setup lib mk st raised m)) = notifications m"
    if "shutdown m"
    using run_blocks_shutdown [OF that] by (simp add: node_implementation_setup_def)
  with helper same chain blocks show ?thesis by simp
qed

theorem shutdown_stops_inserting_witness:
  "shutdown example_shutdown_model \<and>
   insert_resource_after (\<lambda>n. False) NodeResources example_node example_shutdown_model =
     (False, example_shutdown_model\<lparr>shutdown := True, waits := Suc (waits example_shutdown_model)\<rparr>) \<and>
   stores (snd (node_implementation_setup example_lib example_make example_settings
                  (\<lambda>n. False) example_shutdown_model)) = stores example_shutdown_model"
proof -
  have set: "shutdown example_shutdown_model"
    by (simp add: example_shutdown_model_def)
  then have h: "shutdown example_shutdown_model \<or> (\<lambda>n. False) (waits example_shutdown_model)"
    by simp
  from shutdown_stops_inserting [OF h, of NodeResources example_node "[]" "[]"
      example_lib example_make example_settings] set
  show ?thesis by simp
qed

text \<open>
  Claim C8. The startup sequence is fail-fast. Take any block of the sequence and any
  request of that block: when every block before it ran to its end, the requests before
  it in the block were inserted, and the insert of this request fails (the resource is
  a duplicate, or shutdown was observed), the thread returns with the model as the
  failed insert left it. The namespaces are those from before the failed insert: no
  later resource of the sequence is inserted.
\<close>

theorem startup_fail_fast:
  assumes blocks: "setup_blocks lib mk st = pre @ b # post"
    and before: "run_blocks raised pre m = (Inr True, m1)"
    and requests: "b m1 = Inr (rpre @ (ns, r) # rpost)"
    and inserted: "insert_resources_after raised rpre m1 = (True, m2)"
    and failed: "insert_resource_after raised ns r m2 = (False, m3)"
  shows "node_implementation_setup lib mk st raised m = (Inr False, m3) \<and>
         stores m3 = stores m2"
proof -
  have "insert_resources_after raised (rpre @ (ns, r) # rpost) m1 = (False, m3)"
    using inserted failed by (simp add: insert_resources_after_append)
  with requests have "run_blocks raised (b # post) m1 = (Inr False, m3)"
    by simp
  with before have "run_blocks raised (pre @ b # post) m = (Inr False, m3)"
    by (simp add: run_blocks_append)
  with blocks have "node_implementation_setup lib mk st raised m = (Inr False, m3)"
    by (simp add: node_implementation_setup_def)
  moreover from failed have "stores m3 = stores m2"
    by (rule insert_resource_after_failed)
  ultimately show ?thesis by simp
qed

theorem startup_fail_fast_witness:
  "insert_resources_after (\<lambda>n. False)
     [(NodeResources, example_resource ''seed/x-nmos/node/source/0'' Source)]
     example_after_device = (True, example_after_source) \<and>
   insert_resource_after (\<lambda>n. False) NodeResources example_flow example_after_source =
     (False, example_after_flow) \<and>
   node_implementation_setup example_lib example_make example_settings (\<lambda>n. False)
     example_duplicate_model = (Inr False, example_after_flow) \<and>
   stores example_after_flow = stores example_after_source"
proof -
  let ?raised = "\<lambda>n::nat. False"
  let ?source = "example_resource ''seed/x-nmos/node/source/0'' Source"
  let ?pre = "[node_block example_lib example_make example_settings,
      device_block example_lib example_make example_settings]"
  let ?post = "[sender_block example_lib example_make example_settings,
      receiver_block example_lib example_make example_settings,
      temperature_block example_lib example_make example_settings,
      temperature_receiver_block example_lib example_make example_settings]"
  have blocks: "setup_blocks example_lib example_make example_settings =
      ?pre @ source_flow_block example_lib example_make example_settings # ?post"
    by (simp add: setup_blocks_def example_settings_def)
  have before: "run_blocks ?raised ?pre example_duplicate_model = (Inr True, example_after_device)"
    by code_simp
  have requests: "source_flow_block example_lib example_make example_settings
      example_after_device = Inr ([(NodeResources, ?source)] @ (NodeResources, example_flow) # [])"
    by code_simp
  have inserted: "insert_resources_after ?raised [(NodeResources, ?source)]
      example_after_device = (True, example_after_source)"
    by code_simp
  have failed: "insert_resource_after ?raised NodeResources example_flow example_after_source =
      (False, example_after_flow)"
    by code_simp
  from startup_fail_fast [OF blocks before requests inserted failed] inserted failed
  show ?thesis by simp
qed

end
